theory Spec2Isabelle
  imports Main
begin

section \<open>HTTP request logging: the response writer decorator of package httplog\<close>

text \<open>
  The theory embeds \<^verbatim>\<open>staging/src/k8s.io/apiserver/pkg/server/httplog/httplog.go\<close>.
  Go's \<^verbatim>\<open>int\<close> is modelled by \<open>int\<close>: status codes are only compared and stored,
  never computed with, so no wrap-around can be observed. Strings and byte slices are
  \<open>string\<close> (a list of bytes).
\<close>

subsection \<open>Status predicates\<close>

type_synonym StacktracePred = "int \<Rightarrow> bool"

definition StatusSwitchingProtocols :: int where
  "StatusSwitchingProtocols = 101"

definition StatusOK :: int where
  "StatusOK = 200"

definition StatusForbidden :: int where
  "StatusForbidden = 403"

definition StatusInternalServerError :: int where
  "StatusInternalServerError = 500"

definition DefaultStacktracePred :: StacktracePred where
  "DefaultStacktracePred status =
     ((status < StatusOK \<or> status \<ge> StatusInternalServerError)
      \<and> status \<noteq> StatusSwitchingProtocols)"

text \<open>
  \<^verbatim>\<open>StatusIsNot\<close> fills a map in a loop over its arguments and returns a closure
  that looks the status up in that map.
\<close>

fun range_statuses :: "int list \<Rightarrow> (int \<rightharpoonup> bool) \<Rightarrow> (int \<rightharpoonup> bool)" where
  "range_statuses [] statusesNoTrace = statusesNoTrace"
| "range_statuses (s # statuses) statusesNoTrace =
     range_statuses statuses (statusesNoTrace(s \<mapsto> True))"

definition StatusIsNot :: "int list \<Rightarrow> StacktracePred" where
  "StatusIsNot statuses =
     (let statusesNoTrace = range_statuses statuses Map.empty
      in (\<lambda>status. case statusesNoTrace status of None \<Rightarrow> True | Some _ \<Rightarrow> False))"

subsection \<open>Values, writers, requests\<close>

text \<open>
  A value of Go's empty interface, as far as the log record needs it: strings, integers,
  booleans and durations; \<open>VOther\<close> stands for any other value a caller hands to
  \<^verbatim>\<open>AddKeyValue\<close>.
\<close>

datatype iface = VString string | VInt int | VBool bool | VDuration int | VOther nat

text \<open>
  A \<^verbatim>\<open>*respLogger\<close> is an address into the heap of decorators.

  An \<^verbatim>\<open>http.ResponseWriter\<close> is a reference to an object. \<open>Extern\<close> is an
  object made outside this package (the transport's writer, or an enclosing middleware's):
  it carries which of the optional interfaces \<^verbatim>\<open>http.Flusher\<close>,
  \<^verbatim>\<open>http.CloseNotifier\<close> and \<^verbatim>\<open>http.Hijacker\<close> its dynamic type implements,
  and its identity. The other three are the objects that decoration hands out: the
  decorator itself and the two outer objects of package responsewriter, each holding the
  decorator's address.
\<close>

type_synonym addr = nat

datatype ResponseWriter =
    Extern (flusher: bool) (closeNotifier: bool) (hijacker: bool) (ident: nat)
  | RespLogger addr
  | outerWithCloseNotifyAndFlush addr
  | outerWithCloseNotifyFlushAndHijack addr

text \<open>
  The type assertions \<^verbatim>\<open>x.(http.Flusher)\<close>, \<^verbatim>\<open>x.(http.CloseNotifier)\<close> and
  \<^verbatim>\<open>x.(http.Hijacker)\<close>. \<^verbatim>\<open>*respLogger\<close> declares \<^verbatim>\<open>Hijack\<close> and neither
  \<^verbatim>\<open>Flush\<close> nor \<^verbatim>\<open>CloseNotify\<close>.
\<close>

fun is_Flusher :: "ResponseWriter \<Rightarrow> bool" where
  "is_Flusher (Extern f c h i) = f"
| "is_Flusher (RespLogger a) = False"
| "is_Flusher (outerWithCloseNotifyAndFlush a) = True"
| "is_Flusher (outerWithCloseNotifyFlushAndHijack a) = True"

fun is_CloseNotifier :: "ResponseWriter \<Rightarrow> bool" where
  "is_CloseNotifier (Extern f c h i) = c"
| "is_CloseNotifier (RespLogger a) = False"
| "is_CloseNotifier (outerWithCloseNotifyAndFlush a) = True"
| "is_CloseNotifier (outerWithCloseNotifyFlushAndHijack a) = True"

fun is_Hijacker :: "ResponseWriter \<Rightarrow> bool" where
  "is_Hijacker (Extern f c h i) = h"
| "is_Hijacker (RespLogger a) = True"
| "is_Hijacker (outerWithCloseNotifyAndFlush a) = False"
| "is_Hijacker (outerWithCloseNotifyFlushAndHijack a) = True"

text \<open>
  A request context is a chain of key/value pairs, the innermost first. Only this package
  can store under \<open>respLoggerContextKey\<close> (the key's type is unexported), but the
  lookup still checks the dynamic type of what it finds; a typed nil pointer is
  \<open>RespLoggerPtr None\<close>.
\<close>

datatype ctx_key = respLoggerContextKey | OtherKey nat

datatype ctx_val = RespLoggerPtr "addr option" | OtherVal nat

type_synonym ctx = "(ctx_key \<times> ctx_val) list"

fun ctx_Value :: "ctx \<Rightarrow> ctx_key \<Rightarrow> ctx_val option" where
  "ctx_Value [] k = None"
| "ctx_Value ((k', v) # parent) k = (if k' = k then Some v else ctx_Value parent k)"

definition WithValue :: "ctx \<Rightarrow> ctx_key \<Rightarrow> ctx_val \<Rightarrow> ctx" where
  "WithValue parent k v = (k, v) # parent"

text \<open>
  The fields of \<^verbatim>\<open>http.Request\<close> that the package reads. \<open>UserAgent\<close> is what
  \<^verbatim>\<open>req.UserAgent()\<close> returns, \<open>Context\<close> what \<^verbatim>\<open>req.Context()\<close> returns.
  Handlers receive a non-nil request.
\<close>

record Request =
  Method :: string
  RequestURI :: string
  UserAgent :: string
  RemoteAddr :: string
  Context :: ctx

definition WithContext :: "Request \<Rightarrow> ctx \<Rightarrow> Request" where
  "WithContext r c = r\<lparr>Context := c\<rparr>"

subsection \<open>The decorator and the world around it\<close>

text \<open>Times are nanoseconds; \<open>addedInfo\<close> is the content of the string builder.\<close>

record respLogger =
  hijacked :: bool
  statusRecorded :: bool
  status :: int
  statusStack :: string
  addedInfo :: string
  addedKeyValuePairs :: "iface list"
  startTime :: int
  captureErrorOutput :: bool
  req :: Request
  w :: ResponseWriter
  logStacktracePred :: StacktracePred

text \<open>
  A call that leaves the package, to the writer the decorator wraps. What the receiving
  object does with it is not this package's code; the model records the call and takes
  the returned values from \<open>extern\<close> below.
\<close>

datatype writer_call = Call_Header | Call_Write string | Call_WriteHeader int | Call_Hijack

record world =
  loggers :: "respLogger list"
  wcalls :: "(ResponseWriter \<times> writer_call) list"
  klog :: "(string \<times> iface list) list"

text \<open>
  The collaborators of the package, none of them among the sources: formatting, the
  wrapped writer's methods, the request-info, audit and metrics helpers, the clock's
  subtraction and klog's verbosity. A \<^verbatim>\<open>Hijack\<close> returns a connection, a buffered
  reader/writer and an error; \<^verbatim>\<open>Write\<close> a byte count and an error. \<open>w_TypeName\<close>
  is the name of a writer's dynamic type, which the runtime prints when a type assertion
  fails.
\<close>

typedecl RequestInfo

record extern =
  fmt_Sprintf :: "string \<Rightarrow> iface list \<Rightarrow> string"
  strings_ToUpper :: "string \<Rightarrow> string"
  time_Sub :: "int \<Rightarrow> int \<Rightarrow> int"
  w_Header :: "ResponseWriter \<Rightarrow> string \<Rightarrow> string list"
  w_Write :: "ResponseWriter \<Rightarrow> string \<Rightarrow> int \<times> string option"
  w_Hijack :: "ResponseWriter \<Rightarrow> nat option \<times> nat option \<times> string option"
  w_TypeName :: "ResponseWriter \<Rightarrow> string"
  GetAuditIDTruncated :: "Request \<Rightarrow> string"
  RequestInfoFrom :: "ctx \<Rightarrow> RequestInfo option"
  ReceivedTimestampFrom :: "ctx \<Rightarrow> int option"
  CleanScope :: "RequestInfo \<Rightarrow> string"
  CanonicalVerb :: "string \<Rightarrow> string \<Rightarrow> string"
  CleanVerb :: "string \<Rightarrow> Request \<Rightarrow> string"
  klog_V3_Enabled :: bool

text \<open>
  A call either returns or panics. A method with a pointer receiver reads and writes the
  decorator at its address; an address beyond the heap plays the nil pointer.
\<close>

datatype 'a outcome = Return 'a | Panic string

definition deref :: "world \<Rightarrow> addr \<Rightarrow> respLogger option" where
  "deref wo a = (if a < length (loggers wo) then Some (loggers wo ! a) else None)"

definition store :: "addr \<Rightarrow> respLogger \<Rightarrow> world \<Rightarrow> world" where
  "store a rl wo = wo\<lparr>loggers := (loggers wo)[a := rl]\<rparr>"

definition nil_dereference :: string where
  "nil_dereference = ''runtime error: invalid memory address or nil pointer dereference''"

definition forward :: "ResponseWriter \<Rightarrow> writer_call \<Rightarrow> world \<Rightarrow> world" where
  "forward rw c wo = wo\<lparr>wcalls := wcalls wo @ [(rw, c)]\<rparr>"

subsection \<open>Looking the decorator up\<close>

definition Unwrap :: "respLogger \<Rightarrow> ResponseWriter" where
  "Unwrap rl = w rl"

definition respLoggerFromContext :: "ctx \<Rightarrow> addr option" where
  "respLoggerFromContext c =
     (case ctx_Value c respLoggerContextKey of
        Some (RespLoggerPtr rl) \<Rightarrow> rl
      | _ \<Rightarrow> None)"

definition respLoggerFromRequest :: "Request \<Rightarrow> addr option" where
  "respLoggerFromRequest r = respLoggerFromContext (Context r)"

datatype logger = Logger_respLogger addr | Logger_passthroughLogger

definition LogOf :: "Request \<Rightarrow> ResponseWriter \<Rightarrow> logger" where
  "LogOf r rw =
     (case respLoggerFromRequest r of
        Some rl \<Rightarrow> Logger_respLogger rl
      | None \<Rightarrow> Logger_passthroughLogger)"

definition Unlogged :: "Request \<Rightarrow> ResponseWriter \<Rightarrow> world \<Rightarrow> ResponseWriter outcome" where
  "Unlogged r rw wo =
     (case respLoggerFromRequest r of
        Some a \<Rightarrow>
          (case deref wo a of
             None \<Rightarrow> Panic nil_dereference
           | Some rl \<Rightarrow> Return (w rl))
      | None \<Rightarrow> Return rw)"

subsection \<open>The decorator's methods\<close>

text \<open>
  \<^verbatim>\<open>recordStatus\<close> touches the decorator's own fields only. \<open>stk\<close> is the text
  \<^verbatim>\<open>runtime.Stack\<close> has for the calling goroutine; the buffer handed to it holds
  \<open>50 * 1024\<close> bytes, and the text is cut there.
\<close>

definition recordStatus :: "string \<Rightarrow> int \<Rightarrow> respLogger \<Rightarrow> respLogger" where
  "recordStatus stk st rl =
     (let rl1 = rl\<lparr>status := st\<rparr>;
          rl2 = rl1\<lparr>statusRecorded := True\<rparr>
      in if logStacktracePred rl2 st
         then (let stack = take (50 * 1024) stk;
                   rl3 = rl2\<lparr>statusStack := [CHR 0x0A] @ stack\<rparr>
               in rl3\<lparr>captureErrorOutput := True\<rparr>)
         else rl2\<lparr>statusStack := ''''\<rparr>)"

definition respLogger_StacktraceWhen :: "StacktracePred \<Rightarrow> respLogger \<Rightarrow> respLogger" where
  "respLogger_StacktraceWhen pred rl = rl\<lparr>logStacktracePred := pred\<rparr>"

definition respLogger_Addf :: "extern \<Rightarrow> string \<Rightarrow> iface list \<Rightarrow> respLogger \<Rightarrow> respLogger" where
  "respLogger_Addf ext format data rl =
     (let rl1 = rl\<lparr>addedInfo := addedInfo rl @ [CHR 0x0A]\<rparr>
      in rl1\<lparr>addedInfo := addedInfo rl1 @ fmt_Sprintf ext format data\<rparr>)"

definition respLogger_AddKeyValue :: "string \<Rightarrow> iface \<Rightarrow> respLogger \<Rightarrow> respLogger" where
  "respLogger_AddKeyValue key val rl =
     rl\<lparr>addedKeyValuePairs := addedKeyValuePairs rl @ [VString key, val]\<rparr>"

text \<open>
  The methods as they are called, through the pointer. The source has a method and a
  function of the name \<^verbatim>\<open>AddKeyValue\<close>; the method is \<open>AddKeyValue_method\<close> here.
\<close>

definition StacktraceWhen :: "addr \<Rightarrow> StacktracePred \<Rightarrow> world \<Rightarrow> addr outcome \<times> world" where
  "StacktraceWhen a pred wo =
     (case deref wo a of
        None \<Rightarrow> (Panic nil_dereference, wo)
      | Some rl \<Rightarrow> (Return a, store a (respLogger_StacktraceWhen pred rl) wo))"

definition Addf :: "extern \<Rightarrow> addr \<Rightarrow> string \<Rightarrow> iface list \<Rightarrow> world \<Rightarrow> unit outcome \<times> world" where
  "Addf ext a format data wo =
     (case deref wo a of
        None \<Rightarrow> (Panic nil_dereference, wo)
      | Some rl \<Rightarrow> (Return (), store a (respLogger_Addf ext format data rl) wo))"

definition AddInfof :: "extern \<Rightarrow> ctx \<Rightarrow> string \<Rightarrow> iface list \<Rightarrow> world \<Rightarrow> unit outcome \<times> world" where
  "AddInfof ext c format data wo =
     (case respLoggerFromContext c of
        Some rl \<Rightarrow> Addf ext rl format data wo
      | None \<Rightarrow> (Return (), wo))"

definition AddKeyValue_method :: "addr \<Rightarrow> string \<Rightarrow> iface \<Rightarrow> world \<Rightarrow> unit outcome \<times> world" where
  "AddKeyValue_method a key val wo =
     (case deref wo a of
        None \<Rightarrow> (Panic nil_dereference, wo)
      | Some rl \<Rightarrow> (Return (), store a (respLogger_AddKeyValue key val rl) wo))"

definition AddKeyValue :: "ctx \<Rightarrow> string \<Rightarrow> iface \<Rightarrow> world \<Rightarrow> unit outcome \<times> world" where
  "AddKeyValue c key val wo =
     (case respLoggerFromContext c of
        Some rl \<Rightarrow> AddKeyValue_method rl key val wo
      | None \<Rightarrow> (Return (), wo))"

text \<open>
  The key/value sequence \<^verbatim>\<open>Log\<close> hands to klog, built by the appends of the source in
  their order. \<open>now\<close> is the clock at the call.
\<close>

definition Log_keysAndValues :: "extern \<Rightarrow> int \<Rightarrow> respLogger \<Rightarrow> iface list" where
  "Log_keysAndValues ext now rl =
     (let latency = time_Sub ext now (startTime rl);
          auditID = GetAuditIDTruncated ext (req rl);
          verb0 = Method (req rl);
          verb1 = (case RequestInfoFrom ext (Context (req rl)) of
                     Some requestInfo \<Rightarrow>
                       (let scope = CleanScope ext requestInfo
                        in CanonicalVerb ext (strings_ToUpper ext verb0) scope)
                   | None \<Rightarrow> verb0);
          verb = CleanVerb ext verb1 (req rl);
          keysAndValues0 =
            [VString ''verb'', VString verb,
             VString ''URI'', VString (RequestURI (req rl)),
             VString ''latency'', VDuration latency,
             VString ''userAgent'', VString (UserAgent (req rl)),
             VString ''audit-ID'', VString auditID,
             VString ''srcIP'', VString (RemoteAddr (req rl))];
          keysAndValues1 = keysAndValues0 @ addedKeyValuePairs rl
      in if hijacked rl
         then keysAndValues1 @ [VString ''hijacked'', VBool True]
         else (let keysAndValues2 = keysAndValues1 @ [VString ''resp'', VInt (status rl)];
                   keysAndValues3 =
                     (if length (statusStack rl) > 0
                      then keysAndValues2 @ [VString ''statusStack'', VString (statusStack rl)]
                      else keysAndValues2);
                   info = addedInfo rl
               in if length info > 0
                  then keysAndValues3 @ [VString ''addedInfo'', VString info]
                  else keysAndValues3))"

definition Log :: "extern \<Rightarrow> int \<Rightarrow> addr \<Rightarrow> world \<Rightarrow> unit outcome \<times> world" where
  "Log ext now a wo =
     (case deref wo a of
        None \<Rightarrow> (Panic nil_dereference, wo)
      | Some rl \<Rightarrow>
          (Return (), wo\<lparr>klog := klog wo @ [(''HTTP'', Log_keysAndValues ext now rl)]\<rparr>))"

definition Header :: "extern \<Rightarrow> addr \<Rightarrow> world \<Rightarrow> (string \<Rightarrow> string list) outcome \<times> world" where
  "Header ext a wo =
     (case deref wo a of
        None \<Rightarrow> (Panic nil_dereference, wo)
      | Some rl \<Rightarrow> (Return (w_Header ext (w rl)), forward (w rl) Call_Header wo))"

definition Write ::
  "extern \<Rightarrow> string \<Rightarrow> addr \<Rightarrow> string \<Rightarrow> world \<Rightarrow> (int \<times> string option) outcome \<times> world" where
  "Write ext stk a b wo =
     (case deref wo a of
        None \<Rightarrow> (Panic nil_dereference, wo)
      | Some rl \<Rightarrow>
          (let rl1 = (if \<not> statusRecorded rl then recordStatus stk StatusOK rl else rl);
               rl2 = (if captureErrorOutput rl1
                      then respLogger_Addf ext (''logging error output: %q'' @ [CHR 0x0A])
                             [VString b] rl1
                      else rl1)
           in (Return (w_Write ext (w rl2) b), forward (w rl2) (Call_Write b) (store a rl2 wo))))"

definition WriteHeader :: "string \<Rightarrow> addr \<Rightarrow> int \<Rightarrow> world \<Rightarrow> unit outcome \<times> world" where
  "WriteHeader stk a st wo =
     (case deref wo a of
        None \<Rightarrow> (Panic nil_dereference, wo)
      | Some rl \<Rightarrow>
          (let rl1 = recordStatus stk st rl
           in (Return (), forward (w rl1) (Call_WriteHeader st) (store a rl1 wo))))"

text \<open>
  \<^verbatim>\<open>Hijack\<close> sets the flag, then asserts that the wrapped writer is a hijacker; the
  assertion has the one-result form, which panics when it fails, with the runtime's
  message for a failed interface conversion.
\<close>

definition Hijack ::
  "extern \<Rightarrow> addr \<Rightarrow> world \<Rightarrow> (nat option \<times> nat option \<times> string option) outcome \<times> world" where
  "Hijack ext a wo =
     (case deref wo a of
        None \<Rightarrow> (Panic nil_dereference, wo)
      | Some rl \<Rightarrow>
          (let rl1 = rl\<lparr>hijacked := True\<rparr>;
               wo1 = store a rl1 wo
           in if is_Hijacker (w rl1)
              then (Return (w_Hijack ext (w rl1)), forward (w rl1) Call_Hijack wo1)
              else (Panic (''interface conversion: '' @ w_TypeName ext (w rl1)
                           @ '' is not http.Hijacker: missing method Hijack''),
                    wo1)))"

subsection \<open>Decoration and the middleware\<close>

text \<open>
  Modelled from the spec: \<^verbatim>\<open>responsewriter.WrapForHTTP1Or2\<close> is not among the sources.
  The spec has it pick, when the wrapper is made, one of a fixed set of wrapper shapes by
  the capabilities of the writer the decorator wraps. The package's test of it
  (\<^verbatim>\<open>TestRespLoggerWithDecoratedResponseWriter\<close>) fixes three shapes: the decorator
  itself for a writer with no optional capability, an outer object with flush and
  close-notify for a writer that has these two, and an outer object with hijack as well
  when the writer has all three; the comment in \<^verbatim>\<open>Hijack\<close> says that the outer object
  is a hijacker if the wrapped writer is. A writer that lacks flush or close-notify is
  given the decorator itself, as the writer with no optional capability is.
\<close>

definition WrapForHTTP1Or2 :: "addr \<Rightarrow> ResponseWriter \<Rightarrow> ResponseWriter" where
  "WrapForHTTP1Or2 decorator inner =
     (if is_CloseNotifier inner \<and> is_Flusher inner
      then (if is_Hijacker inner
            then outerWithCloseNotifyFlushAndHijack decorator
            else outerWithCloseNotifyAndFlush decorator)
      else RespLogger decorator)"

definition newLoggedWithStartTime ::
  "Request \<Rightarrow> ResponseWriter \<Rightarrow> int \<Rightarrow> world \<Rightarrow> (addr \<times> ResponseWriter) \<times> world" where
  "newLoggedWithStartTime r rw start wo =
     (let logger = \<lparr>hijacked = False, statusRecorded = False, status = 0, statusStack = '''',
                     addedInfo = '''', addedKeyValuePairs = [], startTime = start,
                     captureErrorOutput = False, req = r, w = rw,
                     logStacktracePred = DefaultStacktracePred\<rparr>;
          a = length (loggers wo);
          wo1 = wo\<lparr>loggers := loggers wo @ [logger]\<rparr>;
          rw' = WrapForHTTP1Or2 a (Unwrap logger)
      in ((a, rw'), wo1))"

definition newLogged ::
  "int \<Rightarrow> Request \<Rightarrow> ResponseWriter \<Rightarrow> world \<Rightarrow> (addr \<times> ResponseWriter) \<times> world" where
  "newLogged now r rw wo = newLoggedWithStartTime r rw now wo"

text \<open>
  A handler is called with a writer and a request; it changes the world and returns or
  panics. \<open>WithLogging\<close> reads the clock when the request comes in (\<open>now\<close>), and
  again in the deferred \<^verbatim>\<open>Log\<close> (\<open>later\<close>), which runs whether the inner handler
  returns or panics, after which that outcome goes on to the caller.
\<close>

type_synonym Handler = "ResponseWriter \<Rightarrow> Request \<Rightarrow> world \<Rightarrow> unit outcome \<times> world"

definition WithLogging :: "extern \<Rightarrow> int \<Rightarrow> int \<Rightarrow> Handler \<Rightarrow> StacktracePred \<Rightarrow> Handler" where
  "WithLogging ext now later handler pred rw r wo =
     (let c = Context r
      in case respLoggerFromRequest r of
           Some old \<Rightarrow> (Panic ''multiple WithLogging calls!'', wo)
         | None \<Rightarrow>
             (let start = (case ReceivedTimestampFrom ext c of
                             Some receivedTimestamp \<Rightarrow> receivedTimestamp
                           | None \<Rightarrow> now);
                  ((rl, rw'), wo1) = newLoggedWithStartTime r rw start wo;
                  wo2 = snd (StacktraceWhen rl pred wo1);
                  r' = WithContext r (WithValue c respLoggerContextKey (RespLoggerPtr (Some rl)));
                  (res, wo3) = handler rw' r' wo2
              in if klog_V3_Enabled ext
                 then (res, snd (Log ext later rl wo3))
                 else (res, wo3)))"

subsection \<open>Sequences of calls on one decorator\<close>

text \<open>
  The calls a handler can make on the decorator at an address, each with what the
  environment supplies at that call: the stack text for the two status-recording calls,
  the clock for \<^verbatim>\<open>Log\<close>. A caller may recover from a panic and go on, so a sequence
  continues whatever a call's outcome.
\<close>

datatype method_call =
    is_M_WriteHeader: M_WriteHeader int string
  | M_Write string string
  | M_Header
  | M_Hijack
  | M_Addf string "iface list"
  | M_AddKeyValue string iface
  | M_StacktraceWhen StacktracePred
  | M_Log int

fun exec :: "extern \<Rightarrow> addr \<Rightarrow> method_call \<Rightarrow> world \<Rightarrow> world" where
  "exec ext a (M_WriteHeader st stk) wo = snd (WriteHeader stk a st wo)"
| "exec ext a (M_Write b stk) wo = snd (Write ext stk a b wo)"
| "exec ext a M_Header wo = snd (Header ext a wo)"
| "exec ext a M_Hijack wo = snd (Hijack ext a wo)"
| "exec ext a (M_Addf format data) wo = snd (Addf ext a format data wo)"
| "exec ext a (M_AddKeyValue key val) wo = snd (AddKeyValue_method a key val wo)"
| "exec ext a (M_StacktraceWhen pred) wo = snd (StacktraceWhen a pred wo)"
| "exec ext a (M_Log now) wo = snd (Log ext now a wo)"

fun run :: "extern \<Rightarrow> addr \<Rightarrow> method_call list \<Rightarrow> world \<Rightarrow> world" where
  "run ext a [] wo = wo"
| "run ext a (c # cs) wo = run ext a cs (exec ext a c wo)"

text \<open>
  The status a call hands to \<^verbatim>\<open>recordStatus\<close> in the decorator state it finds:
  \<^verbatim>\<open>WriteHeader\<close> its argument, \<^verbatim>\<open>Write\<close> 200 when no status is recorded yet, every
  other call none. \<open>recordings\<close> lists, along a sequence of calls, each status so
  recorded together with the verdict on it of the predicate in force at that call.
\<close>

fun recorded_status :: "method_call \<Rightarrow> respLogger \<Rightarrow> int option" where
  "recorded_status (M_WriteHeader st stk) rl = Some st"
| "recorded_status (M_Write b stk) rl = (if \<not> statusRecorded rl then Some StatusOK else None)"
| "recorded_status c rl = None"

fun recordings :: "extern \<Rightarrow> addr \<Rightarrow> method_call list \<Rightarrow> world \<Rightarrow> (int \<times> bool) list" where
  "recordings ext a [] wo = []"
| "recordings ext a (c # cs) wo =
     (case deref wo a of
        None \<Rightarrow> []
      | Some rl \<Rightarrow>
          (case recorded_status c rl of
             None \<Rightarrow> []
           | Some st \<Rightarrow> [(st, logStacktracePred rl st)]))
     @ recordings ext a cs (exec ext a c wo)"

subsection \<open>Fixtures of the package's tests\<close>

text \<open>
  The request of the tests (\<^verbatim>\<open>http.NewRequest("GET", "http://example.com", nil)\<close>, whose
  context is empty), a world with nothing in it, and collaborators that do as little as
  possible; the hijack of \<open>test_extern\<close> returns an error.
\<close>

definition test_request :: Request where
  "test_request =
     \<lparr>Method = ''GET'', RequestURI = '''', UserAgent = '''', RemoteAddr = '''', Context = []\<rparr>"

text \<open>
  Modelled from the spec: the fake writers of package responsewriter that the tests
  decorate are not among the sources. The spec's testable properties speak of a writer
  that supports only flush and close-notify and of one that supports hijack as well; the
  tests name them, and the plain one, by the interfaces they implement.
\<close>

definition FakeResponseWriter :: ResponseWriter where
  "FakeResponseWriter = Extern False False False 0"

definition FakeResponseWriterFlusherCloseNotifier :: ResponseWriter where
  "FakeResponseWriterFlusherCloseNotifier = Extern True True False 0"

definition FakeResponseWriterFlusherCloseNotifierHijacker :: ResponseWriter where
  "FakeResponseWriterFlusherCloseNotifierHijacker = Extern True True True 0"

definition empty_world :: world where
  "empty_world = \<lparr>loggers = [], wcalls = [], klog = []\<rparr>"

definition test_extern :: extern where
  "test_extern =
     \<lparr>fmt_Sprintf = (\<lambda>format data. format),
      strings_ToUpper = (\<lambda>s. s),
      time_Sub = (\<lambda>t u. t - u),
      w_Header = (\<lambda>rw key. []),
      w_Write = (\<lambda>rw b. (int (length b), None)),
      w_Hijack = (\<lambda>rw. (None, None, Some ''hijack failed'')),
      w_TypeName = (\<lambda>rw. ''*responsewriter.FakeResponseWriter''),
      GetAuditIDTruncated = (\<lambda>r. ''''),
      RequestInfoFrom = (\<lambda>c. None),
      ReceivedTimestampFrom = (\<lambda>c. None),
      CleanScope = (\<lambda>requestInfo. ''''),
      CanonicalVerb = (\<lambda>verb scope. verb),
      CleanVerb = (\<lambda>verb r. verb),
      klog_V3_Enabled = True\<rparr>"

subsection \<open>Properties of the status predicates\<close>

lemma dom_range_statuses: "dom (range_statuses statuses m) = dom m \<union> set statuses"
  by (induction statuses arbitrary: m) auto

lemma StatusIsNot_member: "StatusIsNot statuses s = (s \<notin> set statuses)"
proof -
  have "(s \<notin> dom (range_statuses statuses Map.empty)) = (s \<notin> set statuses)"
    by (simp add: dom_range_statuses)
  then have "(range_statuses statuses Map.empty s = None) = (s \<notin> set statuses)"
    by (simp only: domIff not_not)
  then show ?thesis
    by (cases "range_statuses statuses Map.empty s") (simp_all add: StatusIsNot_def)
qed

text \<open>
  C4. For every status code, \<open>DefaultStacktracePred\<close> holds exactly when the status is
  below 200 or at least 500, and is not 101. It holds for 100 and 500, and fails for 101,
  200, 204, 302, 400 and 404.
\<close>

theorem DefaultStacktracePred_spec:
  "DefaultStacktracePred s = ((s < 200 \<or> 500 \<le> s) \<and> s \<noteq> 101)
   \<and> DefaultStacktracePred 100 \<and> DefaultStacktracePred 500
   \<and> \<not> DefaultStacktracePred 101 \<and> \<not> DefaultStacktracePred 200
   \<and> \<not> DefaultStacktracePred 204 \<and> \<not> DefaultStacktracePred 302
   \<and> \<not> DefaultStacktracePred 400 \<and> \<not> DefaultStacktracePred 404"
  by (simp add: DefaultStacktracePred_def StatusOK_def StatusInternalServerError_def
      StatusSwitchingProtocols_def)

text \<open>
  C5. The predicate made by \<open>StatusIsNot\<close> from a list of excluded statuses holds for
  a status exactly when the status is not in the list. With the empty list it holds for
  every status, and two lists with the same members, in whatever order and however often
  repeated, give the same predicate.
\<close>

theorem StatusIsNot_spec:
  "StatusIsNot excludeList s = (s \<notin> set excludeList)
   \<and> StatusIsNot [] s
   \<and> (set excludeList = set other \<longrightarrow> StatusIsNot excludeList = StatusIsNot other)"
  by (auto simp: StatusIsNot_member fun_eq_iff)

theorem StatusIsNot_spec_witness:
  "StatusIsNot [200, 202] 201 \<and> \<not> StatusIsNot [200, 202] 200 \<and> StatusIsNot [] 200
   \<and> set [200, 202, 200 :: int] = set [202, 200]
   \<and> StatusIsNot [200, 202, 200] = StatusIsNot [202, 200]"
proof -
  have h: "set [200, 202, 200 :: int] = set [202, 200]" by auto
  from StatusIsNot_spec [of "[200, 202]" 201 "[]"]
    StatusIsNot_spec [of "[200, 202]" 200 "[]"]
    StatusIsNot_spec [of "[]" 200 "[]"]
    StatusIsNot_spec [of "[200, 202, 200]" 200 "[202, 200]"] h
  show ?thesis by simp
qed

subsection \<open>Sequences of calls: what is recorded\<close>

lemma deref_store: "deref wo a = Some rl \<Longrightarrow> deref (store a rl' wo) a = Some rl'"
  by (auto simp: deref_def store_def split: if_splits)

lemma deref_forward: "deref (forward rw c wo) a = deref wo a"
  by (simp add: deref_def forward_def)

lemma deref_klog: "deref (wo\<lparr>klog := k\<rparr>) a = deref wo a"
  by (simp add: deref_def)

lemma exec_WriteHeader:
  "deref wo a = Some rl \<Longrightarrow>
   deref (exec ext a (M_WriteHeader st stk) wo) a = Some (recordStatus stk st rl)"
  by (simp add: WriteHeader_def Let_def deref_forward deref_store)

lemma exec_Write:
  "deref wo a = Some rl \<Longrightarrow>
   deref (exec ext a (M_Write b stk) wo) a =
     Some (let rl1 = (if \<not> statusRecorded rl then recordStatus stk StatusOK rl else rl)
           in if captureErrorOutput rl1
              then respLogger_Addf ext (''logging error output: %q'' @ [CHR 0x0A]) [VString b] rl1
              else rl1)"
  by (simp add: Write_def Let_def deref_forward deref_store)

lemma exec_Header: "deref wo a = Some rl \<Longrightarrow> deref (exec ext a M_Header wo) a = Some rl"
  by (simp add: Header_def deref_forward)

lemma exec_Hijack:
  "deref wo a = Some rl \<Longrightarrow> deref (exec ext a M_Hijack wo) a = Some (rl\<lparr>hijacked := True\<rparr>)"
  by (simp add: Hijack_def Let_def deref_forward deref_store)

lemma exec_Addf:
  "deref wo a = Some rl \<Longrightarrow>
   deref (exec ext a (M_Addf format data) wo) a = Some (respLogger_Addf ext format data rl)"
  by (simp add: Addf_def deref_store)

lemma exec_AddKeyValue:
  "deref wo a = Some rl \<Longrightarrow>
   deref (exec ext a (M_AddKeyValue key val) wo) a = Some (respLogger_AddKeyValue key val rl)"
  by (simp add: AddKeyValue_method_def deref_store)

lemma exec_StacktraceWhen:
  "deref wo a = Some rl \<Longrightarrow>
   deref (exec ext a (M_StacktraceWhen pred) wo) a = Some (respLogger_StacktraceWhen pred rl)"
  by (simp add: StacktraceWhen_def deref_store)

lemma exec_Log: "deref wo a = Some rl \<Longrightarrow> deref (exec ext a (M_Log now) wo) a = Some rl"
  by (simp add: Log_def deref_klog)

lemmas exec_deref = exec_WriteHeader exec_Write exec_Header exec_Hijack exec_Addf
  exec_AddKeyValue exec_StacktraceWhen exec_Log

lemma run_append: "run ext a (cs @ ds) wo = run ext a ds (run ext a cs wo)"
  by (induction cs arbitrary: wo) simp_all

lemma exec_allocated: "deref wo a = Some rl \<Longrightarrow> \<exists>rl'. deref (exec ext a c wo) a = Some rl'"
  by (cases c) (auto simp only: exec_deref)

lemma run_allocated: "deref wo a = Some rl \<Longrightarrow> \<exists>rl'. deref (run ext a cs wo) a = Some rl'"
proof (induction cs arbitrary: wo rl)
  case Nil
  then show ?case by simp
next
  case (Cons c cs)
  from exec_allocated [OF Cons.prems] obtain rl1 where "deref (exec ext a c wo) a = Some rl1" ..
  from Cons.IH [OF this] show ?case by simp
qed

lemma exec_invariant:
  assumes "deref wo a = Some rl" and "P rl"
    and "\<And>x stk st. P x \<Longrightarrow> P (recordStatus stk st x)"
    and "\<And>x format data. P x \<Longrightarrow> P (respLogger_Addf ext format data x)"
    and "\<And>x key val. P x \<Longrightarrow> P (respLogger_AddKeyValue key val x)"
    and "\<And>x pred. P x \<Longrightarrow> P (respLogger_StacktraceWhen pred x)"
    and "\<And>x. P x \<Longrightarrow> P (x\<lparr>hijacked := True\<rparr>)"
  shows "\<exists>rl'. deref (exec ext a c wo) a = Some rl' \<and> P rl'"
proof (cases c)
  case (M_Write b stk)
  have "P (if \<not> statusRecorded rl then recordStatus stk StatusOK rl else rl)"
    using assms(2,3) by simp
  then show ?thesis
    using assms(4) by (simp only: M_Write exec_Write [OF assms(1)] Let_def) simp
qed (simp_all only: exec_deref [OF assms(1)] assms simp_thms option.inject ex_simps)

lemma run_invariant:
  assumes "deref wo a = Some rl" and "P rl"
    and "\<And>x stk st. P x \<Longrightarrow> P (recordStatus stk st x)"
    and "\<And>x format data. P x \<Longrightarrow> P (respLogger_Addf ext format data x)"
    and "\<And>x key val. P x \<Longrightarrow> P (respLogger_AddKeyValue key val x)"
    and "\<And>x pred. P x \<Longrightarrow> P (respLogger_StacktraceWhen pred x)"
    and "\<And>x. P x \<Longrightarrow> P (x\<lparr>hijacked := True\<rparr>)"
  shows "\<exists>rl'. deref (run ext a cs wo) a = Some rl' \<and> P rl'"
  using assms(1,2)
proof (induction cs arbitrary: wo rl)
  case Nil
  then show ?case by simp
next
  case (Cons c cs)
  from exec_invariant [of wo a rl P ext c, OF Cons.prems assms(3-7)]
  obtain rl1 where "deref (exec ext a c wo) a = Some rl1" and "P rl1" by blast
  from Cons.IH [OF this] show ?case by simp
qed

lemma fresh_deref:
  "newLoggedWithStartTime r rw start wo = ((a, rw'), wo1) \<Longrightarrow>
   deref wo1 a = Some \<lparr>hijacked = False, statusRecorded = False, status = 0, statusStack = '''',
                     addedInfo = '''', addedKeyValuePairs = [], startTime = start,
                     captureErrorOutput = False, req = r, w = rw,
                     logStacktracePred = DefaultStacktracePred\<rparr>"
  by (auto simp: newLoggedWithStartTime_def Let_def deref_def)

lemma status_recordStatus:
  "status (recordStatus stk st x) = st \<and> statusRecorded (recordStatus stk st x)"
  by (simp add: recordStatus_def Let_def)

lemma status_Addf:
  "status (respLogger_Addf ext format data x) = status x \<and>
   statusRecorded (respLogger_Addf ext format data x) = statusRecorded x"
  by (simp add: respLogger_Addf_def Let_def)

lemma exec_keeps_status:
  assumes "deref wo a = Some rl" and "statusRecorded rl" and "\<not> is_M_WriteHeader c"
  shows "\<exists>rl'. deref (exec ext a c wo) a = Some rl' \<and> statusRecorded rl' \<and> status rl' = status rl"
  using assms(2,3)
  by (cases c)
    (simp_all add: exec_deref [OF assms(1)] status_Addf respLogger_AddKeyValue_def
      respLogger_StacktraceWhen_def Let_def del: exec.simps)

lemma run_keeps_status:
  assumes "deref wo a = Some rl" and "statusRecorded rl" and "\<forall>c \<in> set cs. \<not> is_M_WriteHeader c"
  shows "\<exists>rl'. deref (run ext a cs wo) a = Some rl' \<and> statusRecorded rl' \<and> status rl' = status rl"
  using assms
proof (induction cs arbitrary: wo rl)
  case Nil
  then show ?case by simp
next
  case (Cons c cs)
  from Cons.prems have "\<not> is_M_WriteHeader c" by simp
  from exec_keeps_status [OF Cons.prems(1,2) this]
  obtain rl1 where 1: "deref (exec ext a c wo) a = Some rl1" "statusRecorded rl1"
    and 2: "status rl1 = status rl" by blast
  from Cons.prems have "\<forall>c \<in> set cs. \<not> is_M_WriteHeader c" by simp
  from Cons.IH [OF 1 this] 2 show ?case by simp
qed

text \<open>
  C1 (amended). The recorded status is the status of the most recent \<^verbatim>\<open>WriteHeader\<close>
  call: whatever calls came before it, and whatever calls other than \<^verbatim>\<open>WriteHeader\<close>
  come after it, the decorator's \<open>status\<close> field holds the status that call was given.
  So a later \<^verbatim>\<open>WriteHeader\<close> with a different status replaces the recorded value, and
  nothing else does.
\<close>

theorem status_is_latest_WriteHeader:
  assumes "deref wo a = Some rl" and "\<forall>c \<in> set post. \<not> is_M_WriteHeader c"
  shows "\<exists>rl'. deref (run ext a (pre @ M_WriteHeader st stk # post) wo) a = Some rl'
           \<and> status rl' = st"
proof -
  from run_allocated [OF assms(1)] obtain rl1 where 1: "deref (run ext a pre wo) a = Some rl1" ..
  let ?wo = "exec ext a (M_WriteHeader st stk) (run ext a pre wo)"
  have 2: "deref ?wo a = Some (recordStatus stk st rl1)"
    by (rule exec_WriteHeader [OF 1])
  from run_keeps_status [OF 2 _ assms(2), of ext] status_recordStatus [of stk st rl1]
  obtain rl' where "deref (run ext a post ?wo) a = Some rl'" and "status rl' = st"
    by auto
  then show ?thesis by (simp add: run_append del: exec.simps)
qed

theorem status_is_latest_WriteHeader_witness:
  "deref (snd (newLogged 0 test_request FakeResponseWriter empty_world)) 0 \<noteq> None
   \<and> \<not> is_M_WriteHeader (M_Write ''body'' '''')
   \<and> (\<exists>rl'. deref (run test_extern 0
                 ([M_WriteHeader 200 ''''] @ M_WriteHeader 500 '''' # [M_Write ''body'' ''''])
                 (snd (newLogged 0 test_request FakeResponseWriter empty_world))) 0 = Some rl'
          \<and> status rl' = 500)"
proof -
  obtain rl where h1: "deref (snd (newLogged 0 test_request FakeResponseWriter empty_world)) 0 = Some rl"
    by (simp add: newLogged_def newLoggedWithStartTime_def Let_def deref_def empty_world_def)
  have h2: "\<forall>c \<in> set [M_Write ''body'' '''']. \<not> is_M_WriteHeader c" by simp
  from status_is_latest_WriteHeader [OF h1 h2, of test_extern "[M_WriteHeader 200 '''']" 500 "''''"] h1
  show ?thesis by simp
qed

text \<open>
  C1, as stated, fails: on a fresh decorator \<^verbatim>\<open>WriteHeader(200)\<close> records 200, and a
  following \<^verbatim>\<open>WriteHeader(500)\<close> changes the recorded status to 500.
\<close>

theorem first_status_overwritten:
  "fst (newLogged 0 test_request FakeResponseWriter empty_world) = (0, RespLogger 0)
   \<and> map status (loggers (run test_extern 0 [M_WriteHeader 200 '''']
        (snd (newLogged 0 test_request FakeResponseWriter empty_world)))) = [200]
   \<and> map status (loggers (run test_extern 0 [M_WriteHeader 200 '''', M_WriteHeader 500 '''']
        (snd (newLogged 0 test_request FakeResponseWriter empty_world)))) = [500]"
  by (simp add: newLogged_def newLoggedWithStartTime_def Let_def deref_def empty_world_def
      WriteHeader_def recordStatus_def store_def forward_def FakeResponseWriter_def
      WrapForHTTP1Or2_def Unwrap_def DefaultStacktracePred_def StatusOK_def
      StatusInternalServerError_def StatusSwitchingProtocols_def)

lemma recordStatus_fields:
  "status (recordStatus stk st x) = st"
  "statusRecorded (recordStatus stk st x)"
  "captureErrorOutput (recordStatus stk st x) = (captureErrorOutput x \<or> logStacktracePred x st)"
  "(statusStack (recordStatus stk st x) \<noteq> '''') = logStacktracePred x st"
  by (simp_all add: recordStatus_def Let_def)

lemma Addf_fields:
  "status (respLogger_Addf ext format data x) = status x"
  "statusRecorded (respLogger_Addf ext format data x) = statusRecorded x"
  "captureErrorOutput (respLogger_Addf ext format data x) = captureErrorOutput x"
  "statusStack (respLogger_Addf ext format data x) = statusStack x"
  "logStacktracePred (respLogger_Addf ext format data x) = logStacktracePred x"
  by (simp_all add: respLogger_Addf_def Let_def)

lemma exec_recording:
  assumes "deref wo a = Some rl"
  shows "\<exists>rl'. deref (exec ext a c wo) a = Some rl'
     \<and> captureErrorOutput rl' =
         (captureErrorOutput rl \<or> (\<exists>st. recorded_status c rl = Some st \<and> logStacktracePred rl st))
     \<and> (statusStack rl' \<noteq> '''') =
         (case recorded_status c rl of
            None \<Rightarrow> statusStack rl \<noteq> ''''
          | Some st \<Rightarrow> logStacktracePred rl st)
     \<and> status rl' = (case recorded_status c rl of None \<Rightarrow> status rl | Some st \<Rightarrow> st)"
  by (cases c)
    (simp_all add: exec_deref [OF assms] recordStatus_fields Addf_fields Let_def
      respLogger_AddKeyValue_def respLogger_StacktraceWhen_def del: exec.simps)

lemma run_recording:
  assumes "deref wo a = Some rl"
  shows "\<exists>rl'. deref (run ext a cs wo) a = Some rl'
     \<and> captureErrorOutput rl' =
         (captureErrorOutput rl \<or> True \<in> snd ` set (recordings ext a cs wo))
     \<and> (statusStack rl' \<noteq> '''') =
         (if recordings ext a cs wo = [] then statusStack rl \<noteq> ''''
          else snd (last (recordings ext a cs wo)))
     \<and> status rl' =
         (if recordings ext a cs wo = [] then status rl
          else fst (last (recordings ext a cs wo)))"
  using assms
proof (induction cs arbitrary: wo rl)
  case Nil
  then show ?case by simp
next
  case (Cons c cs)
  from exec_recording [OF Cons.prems, of ext c]
  obtain rl1 where 1: "deref (exec ext a c wo) a = Some rl1"
    and 2: "captureErrorOutput rl1 =
         (captureErrorOutput rl \<or> (\<exists>st. recorded_status c rl = Some st \<and> logStacktracePred rl st))"
    and 3: "(statusStack rl1 \<noteq> '''') =
         (case recorded_status c rl of
            None \<Rightarrow> statusStack rl \<noteq> ''''
          | Some st \<Rightarrow> logStacktracePred rl st)"
    and 4: "status rl1 = (case recorded_status c rl of None \<Rightarrow> status rl | Some st \<Rightarrow> st)"
    by blast
  from Cons.IH [OF 1]
  obtain rl' where 5: "deref (run ext a cs (exec ext a c wo)) a = Some rl'"
    and 6: "captureErrorOutput rl' =
         (captureErrorOutput rl1 \<or> True \<in> snd ` set (recordings ext a cs (exec ext a c wo)))"
    and 7: "(statusStack rl' \<noteq> '''') =
         (if recordings ext a cs (exec ext a c wo) = [] then statusStack rl1 \<noteq> ''''
          else snd (last (recordings ext a cs (exec ext a c wo))))"
    and 8: "status rl' =
         (if recordings ext a cs (exec ext a c wo) = [] then status rl1
          else fst (last (recordings ext a cs (exec ext a c wo))))"
    by blast
  show ?case
  proof (cases "recorded_status c rl")
    case None
    with 2 3 4 5 6 7 8 Cons.prems show ?thesis
      by (simp del: exec.simps)
  next
    case (Some st)
    with 2 3 4 5 6 7 8 Cons.prems show ?thesis
      by (auto simp del: exec.simps)
  qed
qed

text \<open>
  C2 (amended). After every sequence of calls on a decorator made by
  \<^verbatim>\<open>newLoggedWithStartTime\<close>, \<open>captureErrorOutput\<close> is set exactly when some status
  recorded so far satisfied the stacktrace predicate in force when it was recorded, and
  \<open>statusStack\<close> is non-empty exactly when the most recently recorded status did; that
  status is the one in the \<open>status\<close> field. So a non-empty \<open>statusStack\<close> implies
  \<open>captureErrorOutput\<close>, while \<open>captureErrorOutput\<close> outlives the stack text when a
  later recorded status does not satisfy the predicate: once set, it stays set through
  every sequence of calls.
\<close>

theorem capture_follows_recordings:
  "(newLoggedWithStartTime r rw start wo = ((a, rw'), wo1) \<longrightarrow>
      (\<exists>rl'. deref (run ext a cs wo1) a = Some rl'
         \<and> (captureErrorOutput rl' \<longleftrightarrow> True \<in> snd ` set (recordings ext a cs wo1))
         \<and> (statusStack rl' \<noteq> '''' \<longleftrightarrow>
              recordings ext a cs wo1 \<noteq> [] \<and> snd (last (recordings ext a cs wo1)))
         \<and> (recordings ext a cs wo1 \<noteq> [] \<longrightarrow>
              status rl' = fst (last (recordings ext a cs wo1)))
         \<and> (statusStack rl' \<noteq> '''' \<longrightarrow> captureErrorOutput rl')))
   \<and> (deref wo a = Some rl \<and> captureErrorOutput rl \<longrightarrow>
      (\<exists>rl'. deref (run ext a cs wo) a = Some rl' \<and> captureErrorOutput rl'))"
proof (intro conjI impI)
  assume "newLoggedWithStartTime r rw start wo = ((a, rw'), wo1)"
  from fresh_deref [OF this]
  obtain x where fresh: "deref wo1 a = Some x"
    and x: "\<not> captureErrorOutput x" "statusStack x = ''''"
    by fastforce
  from run_recording [OF fresh, of ext cs]
  obtain rl' where 1: "deref (run ext a cs wo1) a = Some rl'"
    and g2: "captureErrorOutput rl' =
         (captureErrorOutput x \<or> True \<in> snd ` set (recordings ext a cs wo1))"
    and g3: "(statusStack rl' \<noteq> '''') =
         (if recordings ext a cs wo1 = [] then statusStack x \<noteq> ''''
          else snd (last (recordings ext a cs wo1)))"
    and g4: "status rl' =
         (if recordings ext a cs wo1 = [] then status x
          else fst (last (recordings ext a cs wo1)))"
    by blast
  from g2 x have 2: "captureErrorOutput rl' = (True \<in> snd ` set (recordings ext a cs wo1))"
    by simp
  from g3 x have 3: "(statusStack rl' \<noteq> '''') =
         (recordings ext a cs wo1 \<noteq> [] \<and> snd (last (recordings ext a cs wo1)))"
    by simp
  from g4 have 4: "recordings ext a cs wo1 \<noteq> [] \<longrightarrow>
      status rl' = fst (last (recordings ext a cs wo1))"
    by simp
  have "statusStack rl' \<noteq> '''' \<longrightarrow> captureErrorOutput rl'"
  proof
    assume "statusStack rl' \<noteq> ''''"
    with 3 have "recordings ext a cs wo1 \<noteq> []" and "snd (last (recordings ext a cs wo1))"
      by simp_all
    then have "True \<in> snd ` set (recordings ext a cs wo1)"
      by (metis image_eqI last_in_set)
    with 2 show "captureErrorOutput rl'" by simp
  qed
  with 1 2 3 4
  show "\<exists>rl'. deref (run ext a cs wo1) a = Some rl'
         \<and> (captureErrorOutput rl' \<longleftrightarrow> True \<in> snd ` set (recordings ext a cs wo1))
         \<and> (statusStack rl' \<noteq> '''' \<longleftrightarrow>
              recordings ext a cs wo1 \<noteq> [] \<and> snd (last (recordings ext a cs wo1)))
         \<and> (recordings ext a cs wo1 \<noteq> [] \<longrightarrow>
              status rl' = fst (last (recordings ext a cs wo1)))
         \<and> (statusStack rl' \<noteq> '''' \<longrightarrow> captureErrorOutput rl')"
    by blast
next
  assume "deref wo a = Some rl \<and> captureErrorOutput rl"
  then have 1: "deref wo a = Some rl" and 2: "captureErrorOutput rl" by simp_all
  from run_recording [OF 1, of ext cs] 2
  show "\<exists>rl'. deref (run ext a cs wo) a = Some rl' \<and> captureErrorOutput rl'"
    by auto
qed

theorem capture_follows_recordings_witness:
  "fst (newLoggedWithStartTime test_request FakeResponseWriter 0 empty_world) = (0, RespLogger 0)
   \<and> recordings test_extern 0
        [M_Write ''boom'' ''goroutine 1'', M_WriteHeader 500 ''goroutine 1'', M_Write ''boom'' '''']
        (snd (newLoggedWithStartTime test_request FakeResponseWriter 0 empty_world))
       = [(200, False), (500, True)]
   \<and> (\<exists>rl'. deref (run test_extern 0
          [M_Write ''boom'' ''goroutine 1'', M_WriteHeader 500 ''goroutine 1'', M_Write ''boom'' '''']
          (snd (newLoggedWithStartTime test_request FakeResponseWriter 0 empty_world))) 0 = Some rl'
        \<and> statusStack rl' \<noteq> '''' \<and> captureErrorOutput rl' \<and> status rl' = 500)"
proof -
  let ?new = "newLoggedWithStartTime test_request FakeResponseWriter 0 empty_world"
  let ?cs = "[M_Write ''boom'' ''goroutine 1'', M_WriteHeader 500 ''goroutine 1'',
      M_Write ''boom'' '''']"
  have h0: "fst ?new = (0, RespLogger 0)"
    by (simp add: newLoggedWithStartTime_def Let_def empty_world_def FakeResponseWriter_def
        WrapForHTTP1Or2_def Unwrap_def)
  then have h: "?new = ((0, RespLogger 0), snd ?new)"
    by (simp add: prod_eq_iff)
  have r: "recordings test_extern 0 ?cs (snd ?new) = [(200, False), (500, True)]"
    by (simp add: newLoggedWithStartTime_def Let_def deref_def empty_world_def
        WriteHeader_def Write_def recordStatus_def respLogger_Addf_def store_def forward_def
        DefaultStacktracePred_def StatusOK_def StatusInternalServerError_def
        StatusSwitchingProtocols_def)
  from capture_follows_recordings
    [where r = test_request and rw = FakeResponseWriter and start = 0 and wo = empty_world
      and a = 0 and rw' = "RespLogger 0" and ?wo1.0 = "snd ?new" and ext = test_extern
      and cs = ?cs] h
  obtain rl' where 1: "deref (run test_extern 0 ?cs (snd ?new)) 0 = Some rl'"
    and 2: "captureErrorOutput rl' \<longleftrightarrow> True \<in> snd ` set (recordings test_extern 0 ?cs (snd ?new))"
    and 3: "statusStack rl' \<noteq> '''' \<longleftrightarrow>
        recordings test_extern 0 ?cs (snd ?new) \<noteq> []
        \<and> snd (last (recordings test_extern 0 ?cs (snd ?new)))"
    and 4: "recordings test_extern 0 ?cs (snd ?new) \<noteq> [] \<longrightarrow>
        status rl' = fst (last (recordings test_extern 0 ?cs (snd ?new)))"
    by blast
  from 2 3 4 have "statusStack rl' \<noteq> '''' \<and> captureErrorOutput rl' \<and> status rl' = 500"
    by (simp only: r) simp
  with 1 h0 r show ?thesis by blast
qed

text \<open>
  C2, as stated, fails: after \<^verbatim>\<open>WriteHeader(500)\<close> and then \<^verbatim>\<open>WriteHeader(200)\<close> under
  the default predicate, \<open>captureErrorOutput\<close> is set while \<open>statusStack\<close> is empty.
\<close>

theorem captureErrorOutput_without_stack:
  "map captureErrorOutput (loggers (run test_extern 0
      [M_WriteHeader 500 ''goroutine 1 [running]'', M_WriteHeader 200 ''goroutine 1 [running]'']
      (snd (newLogged 0 test_request FakeResponseWriter empty_world)))) = [True]
   \<and> map statusStack (loggers (run test_extern 0
      [M_WriteHeader 500 ''goroutine 1 [running]'', M_WriteHeader 200 ''goroutine 1 [running]'']
      (snd (newLogged 0 test_request FakeResponseWriter empty_world)))) = ['''']"
  by (simp add: newLogged_def newLoggedWithStartTime_def Let_def deref_def empty_world_def
      WriteHeader_def recordStatus_def store_def forward_def FakeResponseWriter_def
      WrapForHTTP1Or2_def Unwrap_def DefaultStacktracePred_def StatusOK_def
      StatusInternalServerError_def StatusSwitchingProtocols_def)

text \<open>
  C3. On a decorator fresh from \<^verbatim>\<open>newLogged\<close>, a \<^verbatim>\<open>Write\<close> before any
  \<^verbatim>\<open>WriteHeader\<close> records status 200, and after \<^verbatim>\<open>WriteHeader(403)\<close> a \<^verbatim>\<open>Write\<close>
  leaves the recorded status at 403. More generally, on any decorator \<^verbatim>\<open>Write\<close> records
  200 when no status is recorded yet, and leaves the recorded status as it is otherwise.
\<close>

theorem Write_default_status:
  "(newLogged now r rw wo = ((a, rw'), wo1) \<longrightarrow>
      map_option status (deref (snd (Write ext stk a b wo1)) a) = Some 200
      \<and> map_option status
          (deref (snd (Write ext stk' a b (snd (WriteHeader stk a StatusForbidden wo1)))) a)
         = Some 403)
   \<and> (deref wo a = Some rl \<and> \<not> statusRecorded rl \<longrightarrow>
      map_option status (deref (snd (Write ext stk a b wo)) a) = Some 200)
   \<and> (deref wo a = Some rl \<and> statusRecorded rl \<longrightarrow>
      map_option status (deref (snd (Write ext stk a b wo)) a) = Some (status rl))"
proof (intro conjI impI)
  assume "newLogged now r rw wo = ((a, rw'), wo1)"
  then have new: "newLoggedWithStartTime r rw now wo = ((a, rw'), wo1)"
    by (simp add: newLogged_def)
  note 1 = fresh_deref [OF new]
  from exec_Write [OF 1, of ext b stk]
  show "map_option status (deref (snd (Write ext stk a b wo1)) a) = Some 200"
    by (simp add: Let_def status_recordStatus status_Addf StatusOK_def)
  from exec_Write [OF exec_WriteHeader [OF 1, of ext StatusForbidden stk], of ext b stk']
  show "map_option status
          (deref (snd (Write ext stk' a b (snd (WriteHeader stk a StatusForbidden wo1)))) a)
         = Some 403"
    by (simp add: Let_def status_recordStatus status_Addf StatusForbidden_def)
next
  assume "deref wo a = Some rl \<and> \<not> statusRecorded rl"
  then have 1: "deref wo a = Some rl" and 2: "\<not> statusRecorded rl" by simp_all
  from exec_Write [OF 1, of ext b stk] 2
  show "map_option status (deref (snd (Write ext stk a b wo)) a) = Some 200"
    by (simp add: Let_def status_recordStatus status_Addf StatusOK_def)
next
  assume "deref wo a = Some rl \<and> statusRecorded rl"
  then have 1: "deref wo a = Some rl" and 2: "statusRecorded rl" by simp_all
  from exec_Write [OF 1, of ext b stk] 2
  show "map_option status (deref (snd (Write ext stk a b wo)) a) = Some (status rl)"
    by (simp add: Let_def status_Addf)
qed

theorem Write_default_status_witness:
  "newLogged 0 test_request FakeResponseWriter empty_world =
     ((0, RespLogger 0), snd (newLogged 0 test_request FakeResponseWriter empty_world))
   \<and> map_option status (deref (snd (Write test_extern '''' 0 ''''
        (snd (newLogged 0 test_request FakeResponseWriter empty_world)))) 0) = Some 200
   \<and> map_option status (deref (snd (Write test_extern '''' 0 ''''
        (snd (WriteHeader '''' 0 StatusForbidden
          (snd (newLogged 0 test_request FakeResponseWriter empty_world)))))) 0) = Some 403"
proof -
  let ?new = "newLogged 0 test_request FakeResponseWriter empty_world"
  have "fst ?new = (0, RespLogger 0)"
    by (simp add: newLogged_def newLoggedWithStartTime_def Let_def empty_world_def
        FakeResponseWriter_def WrapForHTTP1Or2_def Unwrap_def)
  then have h: "?new = ((0, RespLogger 0), snd ?new)"
    by (simp add: prod_eq_iff)
  from Write_default_status
    [where now = 0 and r = test_request and rw = FakeResponseWriter and wo = empty_world
      and a = 0 and rw' = "RespLogger 0" and ?wo1.0 = "snd ?new" and ext = test_extern
      and stk = "''''" and b = "''''" and stk' = "''''"] h
  show ?thesis by blast
qed

subsection \<open>The log record, the middleware and the wrapped writer\<close>

lemma Log_keysAndValues_layout:
  "Log_keysAndValues ext now rl =
     [VString ''verb'',
      VString (CleanVerb ext
        (case RequestInfoFrom ext (Context (req rl)) of
           Some requestInfo \<Rightarrow>
             CanonicalVerb ext (strings_ToUpper ext (Method (req rl))) (CleanScope ext requestInfo)
         | None \<Rightarrow> Method (req rl))
        (req rl)),
      VString ''URI'', VString (RequestURI (req rl)),
      VString ''latency'', VDuration (time_Sub ext now (startTime rl)),
      VString ''userAgent'', VString (UserAgent (req rl)),
      VString ''audit-ID'', VString (GetAuditIDTruncated ext (req rl)),
      VString ''srcIP'', VString (RemoteAddr (req rl))]
     @ addedKeyValuePairs rl
     @ (if hijacked rl
        then [VString ''hijacked'', VBool True]
        else [VString ''resp'', VInt (status rl)]
             @ (if statusStack rl \<noteq> '''' then [VString ''statusStack'', VString (statusStack rl)]
                else [])
             @ (if addedInfo rl \<noteq> '''' then [VString ''addedInfo'', VString (addedInfo rl)]
                else []))"
  by (simp add: Log_keysAndValues_def Let_def split: option.split)

lemma run_AddKeyValue_order:
  "deref wo a = Some rl \<Longrightarrow>
   \<exists>rl'. deref (run ext a (map (\<lambda>(key, val). M_AddKeyValue key val) kvs) wo) a = Some rl'
     \<and> addedKeyValuePairs rl' =
         addedKeyValuePairs rl @ concat (map (\<lambda>(key, val). [VString key, val]) kvs)"
proof (induction kvs arbitrary: wo rl)
  case Nil
  then show ?case by simp
next
  case (Cons kv kvs)
  obtain key val where kv: "kv = (key, val)" by (cases kv)
  from exec_AddKeyValue [OF Cons.prems, of ext key val]
  have 1: "deref (exec ext a (M_AddKeyValue key val) wo) a =
      Some (respLogger_AddKeyValue key val rl)" .
  from Cons.IH [OF 1] show ?case
    by (simp add: kv respLogger_AddKeyValue_def del: exec.simps)
qed

text \<open>
  C8. For every decorator state, the key/value sequence of \<^verbatim>\<open>Log\<close> is the six pairs
  verb, URI, latency, userAgent, audit-ID, srcIP in this order, then the accumulated
  key/value pairs in the order they were added, then either the pair (hijacked, true)
  when the connection was hijacked, or else the status pair, followed by the stack trace
  pair only if the stack text is non-empty and by the added-info pair only if the added
  text is non-empty. When hijacked, nothing follows the accumulated pairs but the
  hijacked marker. \<^verbatim>\<open>Log\<close> hands exactly this sequence to klog, under the message
  \<^verbatim>\<open>HTTP\<close>; and a sequence of \<^verbatim>\<open>AddKeyValue\<close> calls extends the accumulated pairs
  by its keys and values in the order of the calls.
\<close>

theorem Log_record_layout:
  "Log_keysAndValues ext now rl =
     [VString ''verb'',
      VString (CleanVerb ext
        (case RequestInfoFrom ext (Context (req rl)) of
           Some requestInfo \<Rightarrow>
             CanonicalVerb ext (strings_ToUpper ext (Method (req rl))) (CleanScope ext requestInfo)
         | None \<Rightarrow> Method (req rl))
        (req rl)),
      VString ''URI'', VString (RequestURI (req rl)),
      VString ''latency'', VDuration (time_Sub ext now (startTime rl)),
      VString ''userAgent'', VString (UserAgent (req rl)),
      VString ''audit-ID'', VString (GetAuditIDTruncated ext (req rl)),
      VString ''srcIP'', VString (RemoteAddr (req rl))]
     @ addedKeyValuePairs rl
     @ (if hijacked rl
        then [VString ''hijacked'', VBool True]
        else [VString ''resp'', VInt (status rl)]
             @ (if statusStack rl \<noteq> '''' then [VString ''statusStack'', VString (statusStack rl)]
                else [])
             @ (if addedInfo rl \<noteq> '''' then [VString ''addedInfo'', VString (addedInfo rl)]
                else []))
   \<and> (deref wo a = Some rl \<longrightarrow>
        Log ext now a wo =
          (Return (), wo\<lparr>klog := klog wo @ [(''HTTP'', Log_keysAndValues ext now rl)]\<rparr>)
        \<and> (\<exists>rl'. deref (run ext a (map (\<lambda>(key, val). M_AddKeyValue key val) kvs) wo) a = Some rl'
              \<and> addedKeyValuePairs rl' =
                  addedKeyValuePairs rl @ concat (map (\<lambda>(key, val). [VString key, val]) kvs)))"
  using run_AddKeyValue_order [of wo a rl ext kvs]
  by (simp add: Log_keysAndValues_layout Log_def)

theorem Log_record_layout_witness:
  "deref (run test_extern 0 [M_AddKeyValue ''apf_pl'' (VString ''exempt''), M_WriteHeader 500 ''goroutine 1'']
      (snd (newLogged 0 test_request FakeResponseWriter empty_world))) 0 \<noteq> None
   \<and> klog (snd (Log test_extern 7 0
        (run test_extern 0 [M_AddKeyValue ''apf_pl'' (VString ''exempt''), M_WriteHeader 500 ''goroutine 1'']
          (snd (newLogged 0 test_request FakeResponseWriter empty_world))))) =
      [(''HTTP'',
        [VString ''verb'', VString ''GET'', VString ''URI'', VString '''',
         VString ''latency'', VDuration 7, VString ''userAgent'', VString '''',
         VString ''audit-ID'', VString '''', VString ''srcIP'', VString '''',
         VString ''apf_pl'', VString ''exempt'',
         VString ''resp'', VInt 500,
         VString ''statusStack'', VString (CHR 0x0A # ''goroutine 1'')])]"
proof -
  let ?wo = "run test_extern 0
      [M_AddKeyValue ''apf_pl'' (VString ''exempt''), M_WriteHeader 500 ''goroutine 1'']
      (snd (newLogged 0 test_request FakeResponseWriter empty_world))"
  let ?rl = "\<lparr>hijacked = False, statusRecorded = True, status = 500,
              statusStack = CHR 0x0A # ''goroutine 1'', addedInfo = '''',
              addedKeyValuePairs = [VString ''apf_pl'', VString ''exempt''], startTime = 0,
              captureErrorOutput = True, req = test_request, w = FakeResponseWriter,
              logStacktracePred = DefaultStacktracePred\<rparr>"
  have w: "?wo = \<lparr>loggers = [?rl], wcalls = [(FakeResponseWriter, Call_WriteHeader 500)], klog = []\<rparr>"
    by (simp add: newLogged_def newLoggedWithStartTime_def Let_def deref_def empty_world_def
        WriteHeader_def AddKeyValue_method_def respLogger_AddKeyValue_def recordStatus_def
        store_def forward_def DefaultStacktracePred_def StatusOK_def
        StatusInternalServerError_def StatusSwitchingProtocols_def)
  then have h: "deref ?wo 0 = Some ?rl"
    by (simp add: deref_def)
  from Log_record_layout [of test_extern 7 ?rl ?wo 0] h
  have "Log test_extern 7 0 ?wo =
          (Return (), ?wo\<lparr>klog := klog ?wo @ [(''HTTP'', Log_keysAndValues test_extern 7 ?rl)]\<rparr>)"
    and "Log_keysAndValues test_extern 7 ?rl =
        [VString ''verb'', VString ''GET'', VString ''URI'', VString '''',
         VString ''latency'', VDuration 7, VString ''userAgent'', VString '''',
         VString ''audit-ID'', VString '''', VString ''srcIP'', VString '''',
         VString ''apf_pl'', VString ''exempt'',
         VString ''resp'', VInt 500,
         VString ''statusStack'', VString (CHR 0x0A # ''goroutine 1'')]"
    by (simp_all add: test_extern_def test_request_def)
  with h w show ?thesis by simp
qed

lemma WithLogging_attached:
  "respLoggerFromRequest r = Some old \<Longrightarrow>
   WithLogging ext now later handler pred rw r wo = (Panic ''multiple WithLogging calls!'', wo)"
  by (simp add: WithLogging_def)

lemma WithLogging_installs:
  assumes "respLoggerFromRequest r = None"
  shows "fst (WithLogging ext now later handler pred rw r wo) =
         fst (handler (WrapForHTTP1Or2 (length (loggers wo)) rw)
               (r\<lparr>Context := (respLoggerContextKey, RespLoggerPtr (Some (length (loggers wo))))
                    # Context r\<rparr>)
               (wo\<lparr>loggers := loggers wo @
                  [\<lparr>hijacked = False, statusRecorded = False, status = 0, statusStack = '''',
                    addedInfo = '''', addedKeyValuePairs = [],
                    startTime = (case ReceivedTimestampFrom ext (Context r) of
                                   Some receivedTimestamp \<Rightarrow> receivedTimestamp
                                 | None \<Rightarrow> now),
                    captureErrorOutput = False, req = r, w = rw,
                    logStacktracePred = pred\<rparr>]\<rparr>))"
  using assms
  by (simp add: WithLogging_def newLoggedWithStartTime_def StacktraceWhen_def deref_def store_def
      respLogger_StacktraceWhen_def WithContext_def WithValue_def Unwrap_def Let_def
      split: prod.split)

lemma respLoggerFromRequest_installed:
  "respLoggerFromRequest
     (r\<lparr>Context := (respLoggerContextKey, RespLoggerPtr (Some a)) # Context r\<rparr>) = Some a"
  by (simp add: respLoggerFromRequest_def respLoggerFromContext_def)

text \<open>
  C6. Called on a request whose context already carries a decorator, the handler made by
  \<open>WithLogging\<close> panics and leaves the world as it was: no second decorator is made
  and the inner handler is not called. Called on a request without one, it does not panic
  by itself: its outcome is the outcome of the inner handler, which is called with the
  wrapped writer, the request carrying the new decorator, and the world holding that
  decorator. Two nested \<open>WithLogging\<close> on a request without a decorator panic.
\<close>

theorem WithLogging_twice_panics:
  "(respLoggerFromRequest r = Some old \<longrightarrow>
      WithLogging ext now later handler pred rw r wo = (Panic ''multiple WithLogging calls!'', wo))
   \<and> (respLoggerFromRequest r = None \<longrightarrow>
      fst (WithLogging ext now later handler pred rw r wo) =
      fst (handler (WrapForHTTP1Or2 (length (loggers wo)) rw)
            (r\<lparr>Context := (respLoggerContextKey, RespLoggerPtr (Some (length (loggers wo))))
                 # Context r\<rparr>)
            (wo\<lparr>loggers := loggers wo @
               [\<lparr>hijacked = False, statusRecorded = False, status = 0, statusStack = '''',
                 addedInfo = '''', addedKeyValuePairs = [],
                 startTime = (case ReceivedTimestampFrom ext (Context r) of
                                Some receivedTimestamp \<Rightarrow> receivedTimestamp
                              | None \<Rightarrow> now),
                 captureErrorOutput = False, req = r, w = rw,
                 logStacktracePred = pred\<rparr>]\<rparr>))
      \<and> fst (WithLogging ext now later (WithLogging ext now' later' handler pred') pred rw r wo) =
        Panic ''multiple WithLogging calls!'')"
proof (intro conjI impI)
  assume "respLoggerFromRequest r = Some old"
  then show "WithLogging ext now later handler pred rw r wo =
      (Panic ''multiple WithLogging calls!'', wo)"
    by (rule WithLogging_attached)
next
  assume "respLoggerFromRequest r = None"
  then show "fst (WithLogging ext now later handler pred rw r wo) =
      fst (handler (WrapForHTTP1Or2 (length (loggers wo)) rw)
            (r\<lparr>Context := (respLoggerContextKey, RespLoggerPtr (Some (length (loggers wo))))
                 # Context r\<rparr>)
            (wo\<lparr>loggers := loggers wo @
               [\<lparr>hijacked = False, statusRecorded = False, status = 0, statusStack = '''',
                 addedInfo = '''', addedKeyValuePairs = [],
                 startTime = (case ReceivedTimestampFrom ext (Context r) of
                                Some receivedTimestamp \<Rightarrow> receivedTimestamp
                              | None \<Rightarrow> now),
                 captureErrorOutput = False, req = r, w = rw,
                 logStacktracePred = pred\<rparr>]\<rparr>))"
    by (rule WithLogging_installs)
next
  assume "respLoggerFromRequest r = None"
  then show "fst (WithLogging ext now later (WithLogging ext now' later' handler pred') pred rw r wo)
      = Panic ''multiple WithLogging calls!''"
    by (simp only: WithLogging_installs
        WithLogging_attached [OF respLoggerFromRequest_installed] fst_conv)
qed

theorem WithLogging_twice_panics_witness:
  "respLoggerFromRequest test_request = None
   \<and> fst (WithLogging test_extern 0 1 (\<lambda>rw r wo. (Return (), wo)) DefaultStacktracePred
        FakeResponseWriter test_request empty_world) = Return ()
   \<and> respLoggerFromRequest (test_request\<lparr>Context := [(respLoggerContextKey, RespLoggerPtr (Some 0))]\<rparr>)
      = Some 0
   \<and> WithLogging test_extern 0 1 (\<lambda>rw r wo. (Return (), wo)) DefaultStacktracePred
        FakeResponseWriter
        (test_request\<lparr>Context := [(respLoggerContextKey, RespLoggerPtr (Some 0))]\<rparr>) empty_world
      = (Panic ''multiple WithLogging calls!'', empty_world)
   \<and> fst (WithLogging test_extern 0 1
        (WithLogging test_extern 0 1 (\<lambda>rw r wo. (Return (), wo)) DefaultStacktracePred)
        DefaultStacktracePred FakeResponseWriter test_request empty_world)
      = Panic ''multiple WithLogging calls!''"
proof -
  have h1: "respLoggerFromRequest test_request = None"
    by (simp add: respLoggerFromRequest_def respLoggerFromContext_def test_request_def)
  have h2: "respLoggerFromRequest
      (test_request\<lparr>Context := [(respLoggerContextKey, RespLoggerPtr (Some 0))]\<rparr>) = Some 0"
    by (simp add: respLoggerFromRequest_def respLoggerFromContext_def)
  from WithLogging_twice_panics
    [of test_request 0 test_extern 0 1 "\<lambda>rw r wo. (Return (), wo)" DefaultStacktracePred
      FakeResponseWriter empty_world 0 1 DefaultStacktracePred]
    WithLogging_twice_panics
    [of "test_request\<lparr>Context := [(respLoggerContextKey, RespLoggerPtr (Some 0))]\<rparr>" 0
      test_extern 0 1 "\<lambda>rw r wo. (Return (), wo)" DefaultStacktracePred
      FakeResponseWriter empty_world 0 1 DefaultStacktracePred]
    h1 h2
  show ?thesis by simp
qed

lemma w_recordStatus: "w (recordStatus stk st x) = w x"
  by (simp add: recordStatus_def Let_def)

lemma w_Addf: "w (respLogger_Addf ext format data x) = w x"
  by (simp add: respLogger_Addf_def Let_def)

lemma run_keeps_w:
  assumes "deref wo a = Some rl"
  shows "\<exists>rl'. deref (run ext a cs wo) a = Some rl' \<and> w rl' = w rl"
  by (rule run_invariant [where P = "\<lambda>x. w x = w rl", OF assms])
    (simp_all add: w_recordStatus w_Addf respLogger_AddKeyValue_def respLogger_StacktraceWhen_def)

text \<open>
  C7. Without a decorator on the request, \<open>Unlogged\<close> returns the fallback writer
  itself. With a decorator attached, it returns the writer stored in the decorator, and
  that is the writer the decorator was made around: after decoration as
  \<open>WithLogging\<close> does it and any sequence of calls on the decorator, \<open>Unlogged\<close>
  returns the writer given to \<^verbatim>\<open>newLoggedWithStartTime\<close>; a handler under
  \<open>WithLogging\<close> that compares \<open>Unlogged\<close> with the original writer finds them
  equal.
\<close>

theorem Unlogged_returns_original:
  "(respLoggerFromRequest r = None \<longrightarrow> Unlogged r fallback wo = Return fallback)
   \<and> (respLoggerFromRequest r = Some a \<and> deref wo a = Some rl \<longrightarrow>
        Unlogged r fallback wo = Return (w rl))
   \<and> (newLoggedWithStartTime r rw start wo = ((a', rw'), wo1) \<longrightarrow>
        Unlogged (WithContext r (WithValue (Context r) respLoggerContextKey (RespLoggerPtr (Some a'))))
          fallback (run ext a' cs wo1) = Return rw)
   \<and> (respLoggerFromRequest r = None \<longrightarrow>
        fst (WithLogging ext now later
               (\<lambda>rw' r' wo'. (case Unlogged r' rw' wo' of
                                 Return got \<Rightarrow>
                                   if got = rw then Return () else Panic ''Expected origin writer''
                               | Panic p \<Rightarrow> Panic p, wo'))
               pred rw r wo) = Return ())"
proof (intro conjI impI)
  assume "respLoggerFromRequest r = None"
  then show "Unlogged r fallback wo = Return fallback"
    by (simp add: Unlogged_def)
next
  assume "respLoggerFromRequest r = Some a \<and> deref wo a = Some rl"
  then show "Unlogged r fallback wo = Return (w rl)"
    by (simp add: Unlogged_def)
next
  assume "newLoggedWithStartTime r rw start wo = ((a', rw'), wo1)"
  from run_keeps_w [OF fresh_deref [OF this], of ext cs]
  obtain rl' where "deref (run ext a' cs wo1) a' = Some rl'" and "w rl' = rw" by auto
  then show "Unlogged (WithContext r (WithValue (Context r) respLoggerContextKey
      (RespLoggerPtr (Some a')))) fallback (run ext a' cs wo1) = Return rw"
    by (simp add: Unlogged_def WithContext_def WithValue_def respLoggerFromRequest_installed)
next
  assume "respLoggerFromRequest r = None"
  then show "fst (WithLogging ext now later
               (\<lambda>rw' r' wo'. (case Unlogged r' rw' wo' of
                                 Return got \<Rightarrow>
                                   if got = rw then Return () else Panic ''Expected origin writer''
                               | Panic p \<Rightarrow> Panic p, wo'))
               pred rw r wo) = Return ()"
    by (simp add: WithLogging_installs Unlogged_def respLoggerFromRequest_installed deref_def)
qed

theorem Unlogged_returns_original_witness:
  "respLoggerFromRequest test_request = None
   \<and> Unlogged test_request FakeResponseWriterFlusherCloseNotifier empty_world =
       Return FakeResponseWriterFlusherCloseNotifier
   \<and> fst (newLoggedWithStartTime test_request FakeResponseWriterFlusherCloseNotifier 0 empty_world)
       = (0, outerWithCloseNotifyAndFlush 0)
   \<and> Unlogged (test_request\<lparr>Context := [(respLoggerContextKey, RespLoggerPtr (Some 0))]\<rparr>)
        (outerWithCloseNotifyAndFlush 0)
        (run test_extern 0 [M_Write ''body'' '''']
          (snd (newLoggedWithStartTime test_request FakeResponseWriterFlusherCloseNotifier 0
                 empty_world)))
       = Return FakeResponseWriterFlusherCloseNotifier"
proof -
  let ?new = "newLoggedWithStartTime test_request FakeResponseWriterFlusherCloseNotifier 0 empty_world"
  have h1: "respLoggerFromRequest test_request = None"
    by (simp add: respLoggerFromRequest_def respLoggerFromContext_def test_request_def)
  have h2: "fst ?new = (0, outerWithCloseNotifyAndFlush 0)"
    by (simp add: newLoggedWithStartTime_def Let_def empty_world_def WrapForHTTP1Or2_def
        Unwrap_def FakeResponseWriterFlusherCloseNotifier_def)
  then have h3: "?new = ((0, outerWithCloseNotifyAndFlush 0), snd ?new)"
    by (simp add: prod_eq_iff)
  have h4: "WithContext test_request (WithValue (Context test_request) respLoggerContextKey
      (RespLoggerPtr (Some 0))) =
      test_request\<lparr>Context := [(respLoggerContextKey, RespLoggerPtr (Some 0))]\<rparr>"
    by (simp add: WithContext_def WithValue_def test_request_def)
  from h1 h3 Unlogged_returns_original
    [where r = test_request and fallback = FakeResponseWriterFlusherCloseNotifier
      and wo = empty_world]
    Unlogged_returns_original
    [where r = test_request and fallback = "outerWithCloseNotifyAndFlush 0"
      and wo = empty_world and rw = FakeResponseWriterFlusherCloseNotifier and start = 0
      and a' = 0 and rw' = "outerWithCloseNotifyAndFlush 0" and ?wo1.0 = "snd ?new"
      and ext = test_extern and cs = "[M_Write ''body'' '''']"]
  have "Unlogged test_request FakeResponseWriterFlusherCloseNotifier empty_world =
       Return FakeResponseWriterFlusherCloseNotifier"
    and "Unlogged (WithContext test_request (WithValue (Context test_request) respLoggerContextKey
            (RespLoggerPtr (Some 0))))
          (outerWithCloseNotifyAndFlush 0) (run test_extern 0 [M_Write ''body'' ''''] (snd ?new))
         = Return FakeResponseWriterFlusherCloseNotifier"
    by blast+
  with h1 h2 h4 show ?thesis by simp
qed




lemma hijacked_recordStatus: "hijacked (recordStatus stk st x) = hijacked x"
  by (simp add: recordStatus_def Let_def)

lemma hijacked_Addf: "hijacked (respLogger_Addf ext format data x) = hijacked x"
  by (simp add: respLogger_Addf_def Let_def)

lemma run_keeps_hijacked:
  assumes "deref wo a = Some rl" and "hijacked rl"
  shows "\<exists>rl'. deref (run ext a cs wo) a = Some rl' \<and> hijacked rl'"
  by (rule run_invariant [where P = hijacked, OF assms])
    (simp_all add: hijacked_recordStatus hijacked_Addf respLogger_AddKeyValue_def
      respLogger_StacktraceWhen_def)

text \<open>
  C10. \<^verbatim>\<open>Hijack\<close> sets the decorator's \<open>hijacked\<close> flag whatever the wrapped writer
  then does: whether the call returns a connection, returns an error, or panics because
  the wrapped writer is no hijacker. No later call on the decorator resets the flag, so
  after any sequence of calls following a \<^verbatim>\<open>Hijack\<close>, \<^verbatim>\<open>Log\<close> emits the six leading
  pairs, the accumulated pairs and the hijacked marker, and no status or stack trace
  pair.
\<close>

theorem hijacked_is_permanent:
  "deref wo a = Some rl \<Longrightarrow>
   deref (snd (Hijack ext a wo)) a = Some (rl\<lparr>hijacked := True\<rparr>)
   \<and> (\<exists>rl'. deref (run ext a cs (snd (Hijack ext a wo))) a = Some rl' \<and> hijacked rl'
         \<and> Log ext' now a (run ext a cs (snd (Hijack ext a wo))) =
             (Return (),
              (run ext a cs (snd (Hijack ext a wo)))
                \<lparr>klog := klog (run ext a cs (snd (Hijack ext a wo))) @
                   [(''HTTP'', take 12 (Log_keysAndValues ext' now rl') @ addedKeyValuePairs rl'
                       @ [VString ''hijacked'', VBool True])]\<rparr>))"
proof -
  assume 1: "deref wo a = Some rl"
  from exec_Hijack [OF 1, of ext]
  have 2: "deref (snd (Hijack ext a wo)) a = Some (rl\<lparr>hijacked := True\<rparr>)" by simp
  from run_keeps_hijacked [OF 2, of ext cs]
  obtain rl' where 3: "deref (run ext a cs (snd (Hijack ext a wo))) a = Some rl'"
    and 4: "hijacked rl'" by auto
  from 4 have "Log_keysAndValues ext' now rl' =
      take 12 (Log_keysAndValues ext' now rl') @ addedKeyValuePairs rl'
        @ [VString ''hijacked'', VBool True]"
    by (simp add: Log_keysAndValues_layout)
  with 3 have "Log ext' now a (run ext a cs (snd (Hijack ext a wo))) =
             (Return (),
              (run ext a cs (snd (Hijack ext a wo)))
                \<lparr>klog := klog (run ext a cs (snd (Hijack ext a wo))) @
                   [(''HTTP'', take 12 (Log_keysAndValues ext' now rl') @ addedKeyValuePairs rl'
                       @ [VString ''hijacked'', VBool True])]\<rparr>)"
    by (simp add: Log_def)
  with 2 3 4 show ?thesis by blast
qed

theorem hijacked_is_permanent_witness:
  "deref (snd (newLogged 0 test_request FakeResponseWriterFlusherCloseNotifierHijacker empty_world)) 0
     \<noteq> None
   \<and> fst (Hijack test_extern 0
        (snd (newLogged 0 test_request FakeResponseWriterFlusherCloseNotifierHijacker empty_world)))
     = Return (None, None, Some ''hijack failed'')
   \<and> klog (snd (Log test_extern 5 0
        (run test_extern 0 [M_WriteHeader 500 ''goroutine 1'']
          (snd (Hijack test_extern 0
            (snd (newLogged 0 test_request FakeResponseWriterFlusherCloseNotifierHijacker
                   empty_world)))))))
     = [(''HTTP'',
         [VString ''verb'', VString ''GET'', VString ''URI'', VString '''',
          VString ''latency'', VDuration 5, VString ''userAgent'', VString '''',
          VString ''audit-ID'', VString '''', VString ''srcIP'', VString '''',
          VString ''hijacked'', VBool True])]"
proof -
  let ?wo1 = "snd (newLogged 0 test_request FakeResponseWriterFlusherCloseNotifierHijacker
      empty_world)"
  let ?rl = "\<lparr>hijacked = False, statusRecorded = False, status = 0, statusStack = '''',
              addedInfo = '''', addedKeyValuePairs = [], startTime = 0,
              captureErrorOutput = False, req = test_request,
              w = FakeResponseWriterFlusherCloseNotifierHijacker,
              logStacktracePred = DefaultStacktracePred\<rparr>"
  let ?wo = "run test_extern 0 [M_WriteHeader 500 ''goroutine 1''] (snd (Hijack test_extern 0 ?wo1))"
  have w1: "?wo1 = \<lparr>loggers = [?rl], wcalls = [], klog = []\<rparr>"
    by (simp add: newLogged_def newLoggedWithStartTime_def Let_def empty_world_def)
  then have h: "deref ?wo1 0 = Some ?rl"
    by (simp add: deref_def)
  have r: "fst (Hijack test_extern 0 ?wo1) = Return (None, None, Some ''hijack failed'')"
    unfolding w1
    by (simp add: Hijack_def deref_def Let_def test_extern_def
        FakeResponseWriterFlusherCloseNotifierHijacker_def)
  have l: "loggers ?wo =
      [\<lparr>hijacked = True, statusRecorded = True, status = 500,
        statusStack = CHR 0x0A # ''goroutine 1'', addedInfo = '''', addedKeyValuePairs = [],
        startTime = 0, captureErrorOutput = True, req = test_request,
        w = FakeResponseWriterFlusherCloseNotifierHijacker,
        logStacktracePred = DefaultStacktracePred\<rparr>]"
    and k: "klog ?wo = []"
    unfolding w1
    by (simp_all add: Hijack_def WriteHeader_def deref_def store_def forward_def Let_def
        recordStatus_def DefaultStacktracePred_def StatusOK_def StatusInternalServerError_def
        StatusSwitchingProtocols_def FakeResponseWriterFlusherCloseNotifierHijacker_def)
  from hijacked_is_permanent [OF h, of test_extern "[M_WriteHeader 500 ''goroutine 1'']"
      test_extern 5]
  obtain rl' where 1: "deref ?wo 0 = Some rl'"
    and 2: "Log test_extern 5 0 ?wo =
      (Return (), ?wo\<lparr>klog := klog ?wo @
         [(''HTTP'', take 12 (Log_keysAndValues test_extern 5 rl') @ addedKeyValuePairs rl'
             @ [VString ''hijacked'', VBool True])]\<rparr>)"
    by blast
  from 1 l have 3: "rl' = \<lparr>hijacked = True, statusRecorded = True, status = 500,
        statusStack = CHR 0x0A # ''goroutine 1'', addedInfo = '''', addedKeyValuePairs = [],
        startTime = 0, captureErrorOutput = True, req = test_request,
        w = FakeResponseWriterFlusherCloseNotifierHijacker,
        logStacktracePred = DefaultStacktracePred\<rparr>"
    by (simp add: deref_def)
  have 4: "take 12 (Log_keysAndValues test_extern 5 rl') @ addedKeyValuePairs rl' =
         [VString ''verb'', VString ''GET'', VString ''URI'', VString '''',
          VString ''latency'', VDuration 5, VString ''userAgent'', VString '''',
          VString ''audit-ID'', VString '''', VString ''srcIP'', VString '''']"
    by (simp add: 3 Log_keysAndValues_def Let_def test_extern_def test_request_def)
  have "klog (snd (Log test_extern 5 0 ?wo)) =
      [(''HTTP'', (take 12 (Log_keysAndValues test_extern 5 rl') @ addedKeyValuePairs rl')
             @ [VString ''hijacked'', VBool True])]"
    by (simp only: 2 k snd_conv append_Nil append_assoc) simp
  then have "klog (snd (Log test_extern 5 0 ?wo)) =
      [(''HTTP'',
         [VString ''verb'', VString ''GET'', VString ''URI'', VString '''',
          VString ''latency'', VDuration 5, VString ''userAgent'', VString '''',
          VString ''audit-ID'', VString '''', VString ''srcIP'', VString '''',
          VString ''hijacked'', VBool True])]"
    by (simp only: 4) simp
  with h r show ?thesis by simp
qed

end
